theory Spec2Isabelle
  imports Complex_Main "HOL-Library.AList" "HOL-Library.Char_ord" "HOL-Library.List_Lexorder"
begin

section \<open>Data model of the TIDE analyzer\<close>

text \<open>
  The analyzer (\<^verbatim>\<open>tide_analyzer.py\<close>) works on nested Python dictionaries. A feature
  dictionary is an association list from feature names to numbers (Python keeps insertion
  order and never holds a key twice). A Python float is modelled as the real number it
  stands for; NaN and infinite inputs are outside this model. Where only the value of a
  result is concerned (shifts, similarities, coherence), the arithmetic is exact, so a value
  agrees with the code up to rounding, and overflow and underflow are not modelled. Where
  a comparison of computed numbers decides a label (the trend of a trajectory, the
  dominant processing mode), the library function that computes them in binary64 is a
  parameter of the model, and what is proved holds whatever it returns.
\<close>

type_synonym feature_vec = "(string \<times> real) list"

text \<open>\<^verbatim>\<open>features.get(f, 0)\<close>\<close>

definition get0 :: "feature_vec \<Rightarrow> string \<Rightarrow> real" where
  "get0 fs f = (case map_of fs f of None \<Rightarrow> 0 | Some v \<Rightarrow> v)"

text \<open>
  A response dictionary as \<^verbatim>\<open>TIDECollector.run_session\<close> builds it. The key
  \<^verbatim>\<open>task_type\<close> is not set by the collector; \<^verbatim>\<open>calculate_dimensional_shifts\<close>
  writes it.
\<close>

record response =
  prompt :: string
  response_text :: string
  features :: feature_vec
  pattern :: string
  timestamp :: string
  task_type :: "string option"

text \<open>
  A session dictionary. \<^verbatim>\<open>responses\<close> maps a task type to the list of its responses,
  in the insertion order of the dictionary.
\<close>

record session =
  session_timestamp :: string
  model :: string
  responses :: "(string \<times> response list) list"

datatype py_error = KeyError | ValueError

text \<open>The factor loadings of \<^verbatim>\<open>load_dissertation_model\<close>.\<close>

definition internal_features :: "string list" where
  "internal_features = [''social'', ''emotion'', ''polarity'', ''morality'', ''thought'', ''self_motion'']"

definition external_features :: "string list" where
  "external_features = [''space'', ''time'', ''number'']"

definition concrete_features :: "string list" where
  "concrete_features = [''visual'', ''color'', ''auditory'', ''smell_taste'', ''tactile'']"

text \<open>
  \<^verbatim>\<open>np.mean\<close> of a list. On the empty list numpy returns NaN with a warning; every call
  of the analyzer on a possibly empty list is guarded by the caller, and the guard is part
  of the caller's model.
\<close>

definition np_mean :: "real list \<Rightarrow> real" where
  "np_mean xs = sum_list xs / real (length xs)"

text \<open>The fixed iteration order \<^verbatim>\<open>['concrete', 'internal', 'external']\<close>.\<close>

definition task_order :: "string list" where
  "task_order = [''concrete'', ''internal'', ''external'']"

text \<open>The arrow of the transition labels, U+2192 in UTF-8.\<close>

definition arrow :: string where
  "arrow = [CHR 0x20, CHR 0xE2, CHR 0x86, CHR 0x92, CHR 0x20]"

section \<open>Dimensional shifts\<close>

text \<open>\<^verbatim>\<open>calculate_factor_shift\<close>: the last branch takes every other factor name.\<close>

definition factor_features :: "string \<Rightarrow> string list" where
  "factor_features factor =
     (if factor = ''internal'' then internal_features
      else if factor = ''external'' then external_features
      else concrete_features)"

definition calculate_factor_shift :: "feature_vec \<Rightarrow> feature_vec \<Rightarrow> string \<Rightarrow> real" where
  "calculate_factor_shift before_features after_features factor =
     (let fs = factor_features factor;
          before_score = np_mean (map (get0 before_features) fs);
          after_score = np_mean (map (get0 after_features) fs)
      in after_score - before_score)"

record shift_data =
  transition :: string
  internal_delta :: real
  external_delta :: real
  concrete_delta :: real
  pattern_change :: string

text \<open>
  The first loop of \<^verbatim>\<open>calculate_dimensional_shifts\<close>. \<^verbatim>\<open>resp['task_type'] = task_type\<close>
  writes into the response dictionaries of the caller's session, so the loop returns the
  session's response map after the writes together with \<^verbatim>\<open>all_responses\<close>. The response
  dictionaries of a session are distinct objects (the collector and the JSON loader build
  a fresh one for each response), so a write reaches one response only.
\<close>

fun collect_responses ::
  "string list \<Rightarrow> (string \<times> response list) list \<Rightarrow> response list
     \<Rightarrow> (string \<times> response list) list \<times> response list" where
  "collect_responses [] rs acc = (rs, acc)"
| "collect_responses (t # ts) rs acc =
     (case map_of rs t of
        None \<Rightarrow> collect_responses ts rs acc
      | Some l \<Rightarrow>
          (let l' = map (\<lambda>resp. resp\<lparr>task_type := Some t\<rparr>) l
           in collect_responses ts (AList.update t l' rs) (acc @ l')))"

text \<open>The tag read back by \<^verbatim>\<open>before['task_type']\<close>; every collected response has one.\<close>

definition tag_of :: "response \<Rightarrow> string" where
  "tag_of resp = (case task_type resp of Some t \<Rightarrow> t | None \<Rightarrow> [])"

definition make_shift :: "response \<Rightarrow> response \<Rightarrow> shift_data" where
  "make_shift before after =
     \<lparr> transition = tag_of before @ arrow @ tag_of after,
       internal_delta = calculate_factor_shift (features before) (features after) ''internal'',
       external_delta = calculate_factor_shift (features before) (features after) ''external'',
       concrete_delta = calculate_factor_shift (features before) (features after) ''concrete'',
       pattern_change = pattern before @ arrow @ pattern after \<rparr>"

text \<open>
  \<^verbatim>\<open>calculate_dimensional_shifts\<close>: the session after the call and the list of shifts,
  one for each \<^verbatim>\<open>i\<close> of \<^verbatim>\<open>range(1, len(all_responses))\<close>.
\<close>

definition calculate_dimensional_shifts :: "session \<Rightarrow> session \<times> shift_data list" where
  "calculate_dimensional_shifts data =
     (let (rs', all_responses) = collect_responses task_order (responses data) []
      in (data\<lparr>responses := rs'\<rparr>,
          map (\<lambda>i. make_shift (all_responses ! (i - 1)) (all_responses ! i))
              [1 ..< length all_responses]))"

text \<open>
  The flattening the specification describes: the responses of the three task types, in
  the order concrete, internal, external; a task type the session lacks gives none.
\<close>

definition responses_of :: "session \<Rightarrow> string \<Rightarrow> response list" where
  "responses_of data t = (case map_of (responses data) t of None \<Rightarrow> [] | Some l \<Rightarrow> l)"

definition flattened :: "session \<Rightarrow> response list" where
  "flattened data = responses_of data ''concrete'' @ responses_of data ''internal''
                      @ responses_of data ''external''"

definition group_mean :: "string list \<Rightarrow> feature_vec \<Rightarrow> real" where
  "group_mean grp fv = (\<Sum>f\<leftarrow>grp. get0 fv f) / real (length grp)"


section \<open>Example sessions\<close>

text \<open>The session of \<^verbatim>\<open>test_fix.py\<close>; its responses carry four of the fourteen features.\<close>

definition test_session :: session where
  "test_session =
     \<lparr> session_timestamp = ''2024-01-01'', model = ''test-model'',
       responses =
         [(''concrete'',
             [\<lparr> prompt = ''test'', response_text = ''test response'',
                features = [(''visual'', 0.5), (''tactile'', 0.5), (''social'', 0.5), (''emotion'', 0.5)],
                pattern = ''CCDF'', timestamp = [], task_type = None \<rparr>]),
          (''internal'',
             [\<lparr> prompt = ''test2'', response_text = ''test response 2'',
                features = [(''visual'', 0.7), (''tactile'', 0.7), (''social'', 0.7), (''emotion'', 0.7)],
                pattern = ''AADS'', timestamp = [], task_type = None \<rparr>])] \<rparr>"

section \<open>Coherence\<close>

definition dot :: "real list \<Rightarrow> real list \<Rightarrow> real" where
  "dot u v = (\<Sum>(x, y)\<leftarrow>zip u v. x * y)"

text \<open>
  \<^verbatim>\<open>scipy.spatial.distance.cosine(u, v)\<close>, a library function, by its documented
  behaviour: \<^verbatim>\<open>1 - u.v / (||u|| ||v||)\<close>; vectors of different lengths raise
  \<^verbatim>\<open>ValueError\<close>; a zero vector makes the quotient \<^verbatim>\<open>0/0\<close>, which numpy evaluates to NaN
  with a warning, here \<open>None\<close>.
\<close>

definition cosine :: "real list \<Rightarrow> real list \<Rightarrow> py_error + real option" where
  "cosine u v =
     (if length u \<noteq> length v then Inl ValueError
      else if dot u u * dot v v = 0 then Inr None
      else Inr (Some (1 - dot u v / sqrt (dot u u * dot v v))))"

text \<open>\<^verbatim>\<open>np.any(vec)\<close>\<close>

definition np_any :: "real list \<Rightarrow> bool" where
  "np_any vec = list_ex (\<lambda>x. x \<noteq> 0) vec"

text \<open>
  \<^verbatim>\<open>calculate_feature_similarity\<close>. Python iterates the set \<^verbatim>\<open>all_features\<close> in an order
  of its own, the same for both vectors; the model takes the order of first occurrence.
  An exception and a NaN both give 0.
\<close>

definition calculate_feature_similarity :: "feature_vec \<Rightarrow> feature_vec \<Rightarrow> real" where
  "calculate_feature_similarity features1 features2 =
     (let all_features = remdups (map fst features1 @ map fst features2);
          vec1 = map (get0 features1) all_features;
          vec2 = map (get0 features2) all_features
      in if np_any vec1 \<and> np_any vec2 then
           (case cosine vec1 vec2 of
              Inl e \<Rightarrow> 0
            | Inr None \<Rightarrow> 0
            | Inr (Some distance) \<Rightarrow> 1 - distance)
         else 0)"

text \<open>
  The two nested loops of \<^verbatim>\<open>calculate_coherence\<close> over \<^verbatim>\<open>range(len(task_features)-1)\<close>
  and \<^verbatim>\<open>range(i+1, len(task_features))\<close>.
\<close>

definition pair_similarities :: "feature_vec list \<Rightarrow> real list" where
  "pair_similarities task_features =
     concat (map (\<lambda>i. map (\<lambda>j. calculate_feature_similarity (task_features ! i) (task_features ! j))
                          [i + 1 ..< length task_features])
                 [0 ..< length task_features - 1])"

text \<open>Factor 1 of \<^verbatim>\<open>calculate_coherence\<close>: the loop over the three task types.\<close>

fun consistency_factors :: "string list \<Rightarrow> (string \<times> response list) list \<Rightarrow> real list" where
  "consistency_factors [] rs = []"
| "consistency_factors (t # ts) rs =
     (case map_of rs t of
        None \<Rightarrow> consistency_factors ts rs
      | Some l \<Rightarrow>
          (let task_features = map features l
           in if length task_features > 1 then
                (let similarities = pair_similarities task_features
                 in if similarities \<noteq> [] then np_mean similarities # consistency_factors ts rs
                    else consistency_factors ts rs)
              else consistency_factors ts rs))"

text \<open>\<^verbatim>\<open>calculate_dimensional_alignment\<close>\<close>

definition alignment_scores_of :: "session \<Rightarrow> string \<Rightarrow> string list \<Rightarrow> real list" where
  "alignment_scores_of data t grp =
     (case map_of (responses data) t of
        None \<Rightarrow> []
      | Some l \<Rightarrow> map (\<lambda>resp. np_mean (map (get0 (features resp)) grp)) l)"

definition calculate_dimensional_alignment :: "session \<Rightarrow> real" where
  "calculate_dimensional_alignment data =
     (let alignment_scores =
            alignment_scores_of data ''concrete'' concrete_features
            @ alignment_scores_of data ''internal'' internal_features
            @ alignment_scores_of data ''external'' external_features
      in if alignment_scores \<noteq> [] then np_mean alignment_scores else 0)"

text \<open>\<^verbatim>\<open>calculate_coherence\<close>\<close>

definition calculate_coherence :: "session \<Rightarrow> real" where
  "calculate_coherence data =
     (let coherence_factors =
            consistency_factors task_order (responses data) @ [calculate_dimensional_alignment data]
      in if coherence_factors \<noteq> [] then np_mean coherence_factors else 0)"

text \<open>
  The cosine similarity of two feature vectors as the specification words it: the
  vectors range over the union of the keys of both, a missing feature counting 0; a
  vector that is entirely zero has similarity 0; otherwise the similarity is 1 minus the
  cosine distance, and the cosine distance is 1 minus the inner product divided by the
  product of the norms.
\<close>

definition inner_product :: "feature_vec \<Rightarrow> feature_vec \<Rightarrow> real" where
  "inner_product f1 f2 = (\<Sum>k\<in>set (map fst f1) \<union> set (map fst f2). get0 f1 k * get0 f2 k)"

definition squared_norm :: "feature_vec \<Rightarrow> real" where
  "squared_norm f = (\<Sum>k\<in>set (map fst f). (get0 f k)\<^sup>2)"

definition cosine_distance :: "feature_vec \<Rightarrow> feature_vec \<Rightarrow> real" where
  "cosine_distance f1 f2 =
     1 - inner_product f1 f2 / (sqrt (squared_norm f1) * sqrt (squared_norm f2))"

definition entirely_zero :: "feature_vec \<Rightarrow> bool" where
  "entirely_zero f = list_all (\<lambda>k. get0 f k = 0) (map fst f)"

definition cosine_similarity :: "feature_vec \<Rightarrow> feature_vec \<Rightarrow> real" where
  "cosine_similarity f1 f2 =
     (if entirely_zero f1 \<or> entirely_zero f2 then 0 else 1 - cosine_distance f1 f2)"

text \<open>
  The factors as the specification words them: all unordered pairs of a list, the mean
  pairwise cosine similarity of a task type, and the alignment of every response with
  the feature group of its own task type.
\<close>

fun unordered_pairs :: "'a list \<Rightarrow> ('a \<times> 'a) list" where
  "unordered_pairs [] = []"
| "unordered_pairs (x # xs) = map (Pair x) xs @ unordered_pairs xs"

definition mean :: "real list \<Rightarrow> real" where
  "mean xs = sum_list xs / real (length xs)"

definition type_consistency :: "session \<Rightarrow> string \<Rightarrow> real" where
  "type_consistency data t =
     mean (map (\<lambda>(a, b). cosine_similarity (features a) (features b))
               (unordered_pairs (responses_of data t)))"

definition tagged_responses :: "session \<Rightarrow> (string \<times> response) list" where
  "tagged_responses data = concat (map (\<lambda>t. map (Pair t) (responses_of data t)) task_order)"

definition dimensional_alignment :: "session \<Rightarrow> real" where
  "dimensional_alignment data =
     (if tagged_responses data = [] then 0
      else mean (map (\<lambda>(t, resp). group_mean (factor_features t) (features resp))
                     (tagged_responses data)))"

definition coherence_factors :: "session \<Rightarrow> real list" where
  "coherence_factors data =
     map (type_consistency data) (filter (\<lambda>t. 2 \<le> length (responses_of data t)) task_order)
     @ [dimensional_alignment data]"





section \<open>Feature trajectories and trends\<close>

text \<open>
  \<^verbatim>\<open>scipy.stats.pearsonr(x, y)\<close> is a library function that computes in binary64. It
  is a parameter of \<^verbatim>\<open>calculate_trend\<close>: a function that, for the two inputs, raises
  (\<open>Inl\<close>), returns NaN (\<open>Inr None\<close>) or returns a coefficient. Nothing is assumed of it,
  so what is proved of \<^verbatim>\<open>calculate_trend\<close> holds whatever the library computes, rounds
  or raises.
\<close>

type_synonym correlation_fn = "real list \<Rightarrow> real list \<Rightarrow> py_error + real option"

text \<open>\<^verbatim>\<open>np.arange(len(values))\<close>\<close>

definition arange :: "nat \<Rightarrow> real list" where
  "arange n = map real [0 ..< n]"

text \<open>
  \<^verbatim>\<open>calculate_trend\<close>. \<^verbatim>\<open>len(set(values)) == 1\<close> counts the distinct values. The call
  of \<^verbatim>\<open>pearsonr\<close> is the only statement that can raise, and it is inside the
  \<^verbatim>\<open>try\<close>, whose bare \<^verbatim>\<open>except\<close> returns \<^verbatim>\<open>'stable'\<close>; a NaN correlation fails both
  comparisons and reaches the \<^verbatim>\<open>else\<close>. The literals \<^verbatim>\<open>0.3\<close> and \<^verbatim>\<open>-0.3\<close> are doubles:
  the double of \<^verbatim>\<open>0.3\<close> is below 3/10 and the next double is above 3/10, so a coefficient
  that is a double exceeds the literal exactly when it exceeds 3/10, and likewise for
  \<^verbatim>\<open>-0.3\<close>.
\<close>

definition calculate_trend :: "correlation_fn \<Rightarrow> real list \<Rightarrow> string" where
  "calculate_trend pearsonr values =
     (if length values < 2 then ''unknown''
      else if length (remdups values) = 1 then ''stable''
      else (case pearsonr (arange (length values)) values of
              Inl e \<Rightarrow> ''stable''
            | Inr None \<Rightarrow> ''stable''
            | Inr (Some correlation) \<Rightarrow>
                if correlation > 0.3 then ''increasing''
                else if correlation < - 0.3 then ''decreasing''
                else ''stable''))"

text \<open>
  The position indices of a trajectory, and the label the specification gives to the
  outcome of the correlation: a failed or undefined correlation is \<^verbatim>\<open>stable\<close>.
\<close>

definition positions :: "real list \<Rightarrow> real list" where
  "positions values = map real [0 ..< length values]"

fun trend_of_correlation :: "py_error + real option \<Rightarrow> string" where
  "trend_of_correlation (Inl e) = ''stable''"
| "trend_of_correlation (Inr None) = ''stable''"
| "trend_of_correlation (Inr (Some r)) =
     (if r > 0.3 then ''increasing'' else if r < - 0.3 then ''decreasing'' else ''stable'')"

text \<open>
  Behaviours of the parameter for the examples. The first is the coefficient in exact
  arithmetic with the documented exceptions of \<^verbatim>\<open>pearsonr\<close> (inputs of different
  lengths or with fewer than two points) and its NaN on a constant input. The others
  raise, return NaN, or return a given coefficient whatever the input.
\<close>

definition is_constant :: "real list \<Rightarrow> bool" where
  "is_constant x = list_all (\<lambda>v. v = hd x) x"

definition exact_pearsonr :: correlation_fn where
  "exact_pearsonr x y =
     (if length x \<noteq> length y then Inl ValueError
      else if length x < 2 then Inl ValueError
      else if is_constant x \<or> is_constant y then Inr None
      else (let xm = map (\<lambda>v. v - np_mean x) x;
                ym = map (\<lambda>v. v - np_mean y) y;
                r = dot xm ym / (sqrt (dot xm xm) * sqrt (dot ym ym))
            in Inr (Some (max (min r 1) (- 1)))))"

definition raising_pearsonr :: correlation_fn where
  "raising_pearsonr x y = Inl ValueError"

definition nan_pearsonr :: correlation_fn where
  "nan_pearsonr x y = Inr None"

definition fixed_pearsonr :: "real \<Rightarrow> correlation_fn" where
  "fixed_pearsonr r x y = Inr (Some r)"

text \<open>The fourteen feature names, in the order the trajectory dictionary is built.\<close>

definition all_feature_names :: "string list" where
  "all_feature_names = internal_features @ external_features @ concrete_features"

type_synonym trajectories = "(string \<times> real list) list"

text \<open>
  The loops of \<^verbatim>\<open>track_feature_changes\<close>. \<^verbatim>\<open>feature_trajectories[feature].append(value)\<close>
  runs for the items the response has; a feature name outside the fourteen raises
  \<^verbatim>\<open>KeyError\<close>.
\<close>

fun append_items :: "feature_vec \<Rightarrow> trajectories \<Rightarrow> py_error + trajectories" where
  "append_items [] traj = Inr traj"
| "append_items ((feature, v) # items) traj =
     (case map_of traj feature of
        None \<Rightarrow> Inl KeyError
      | Some trajectory \<Rightarrow> append_items items (AList.update feature (trajectory @ [v]) traj))"

fun append_responses :: "response list \<Rightarrow> trajectories \<Rightarrow> py_error + trajectories" where
  "append_responses [] traj = Inr traj"
| "append_responses (resp # rest) traj =
     (case append_items (features resp) traj of
        Inl e \<Rightarrow> Inl e
      | Inr traj' \<Rightarrow> append_responses rest traj')"

fun collect_trajectories ::
  "string list \<Rightarrow> (string \<times> response list) list \<Rightarrow> trajectories \<Rightarrow> py_error + trajectories" where
  "collect_trajectories [] rs traj = Inr traj"
| "collect_trajectories (t # ts) rs traj =
     (case map_of rs t of
        None \<Rightarrow> collect_trajectories ts rs traj
      | Some l \<Rightarrow>
          (case append_responses l traj of
             Inl e \<Rightarrow> Inl e
           | Inr traj' \<Rightarrow> collect_trajectories ts rs traj'))"

record stability =
  stability_mean :: real
  stability_std :: real
  stability_range :: real
  stability_trend :: string

text \<open>\<^verbatim>\<open>np.std\<close>, \<^verbatim>\<open>max\<close> and \<^verbatim>\<open>min\<close> of a list; the callers pass lists of two or more values.\<close>

definition np_std :: "real list \<Rightarrow> real" where
  "np_std xs = sqrt (np_mean (map (\<lambda>v. (v - np_mean xs)\<^sup>2) xs))"

definition list_max :: "real list \<Rightarrow> real" where
  "list_max xs = fold max (tl xs) (hd xs)"

definition list_min :: "real list \<Rightarrow> real" where
  "list_min xs = fold min (tl xs) (hd xs)"

definition stability_metrics :: "correlation_fn \<Rightarrow> trajectories \<Rightarrow> (string \<times> stability) list" where
  "stability_metrics pearsonr traj =
     map (\<lambda>(feature, trajectory).
            (feature, \<lparr> stability_mean = np_mean trajectory,
                        stability_std = np_std trajectory,
                        stability_range = list_max trajectory - list_min trajectory,
                        stability_trend = calculate_trend pearsonr trajectory \<rparr>))
         (filter (\<lambda>(feature, trajectory). length trajectory > 1) traj)"

definition track_feature_changes ::
  "correlation_fn \<Rightarrow> session \<Rightarrow> py_error + trajectories \<times> (string \<times> stability) list" where
  "track_feature_changes pearsonr data =
     (case collect_trajectories task_order (responses data)
             (map (\<lambda>feature. (feature, [])) all_feature_names) of
        Inl e \<Rightarrow> Inl e
      | Inr traj \<Rightarrow> Inr (traj, stability_metrics pearsonr traj))"

section \<open>Feature dissimilarity matrix\<close>

text \<open>
  A matrix as the list of its rows; an entry is a number or NaN (\<open>None\<close>).
  \<^verbatim>\<open>np.zeros((n, n))\<close> and the assignment \<^verbatim>\<open>rdm[i, j] = distance\<close>.
\<close>

type_synonym matrix = "real option list list"

definition zeros :: "nat \<Rightarrow> matrix" where
  "zeros n = replicate n (replicate n (Some 0))"

definition set_entry :: "matrix \<Rightarrow> nat \<Rightarrow> nat \<Rightarrow> real option \<Rightarrow> matrix" where
  "set_entry rdm i j v = rdm[i := (rdm ! i)[j := v]]"

text \<open>
  \<^verbatim>\<open>RSAEngine.create_feature_rdm\<close>. Each response gives the vector of its own values, in
  the sorted order of its own keys. The two loops fill the matrix; an exception of
  \<^verbatim>\<open>cosine\<close> leaves them.
\<close>

definition feature_vectors :: "session \<Rightarrow> real list list" where
  "feature_vectors session_data =
     concat (map (\<lambda>(t, task_responses).
                    map (\<lambda>resp. map (get0 (features resp)) (sort (map fst (features resp))))
                        task_responses)
                 (responses session_data))"

fun fill_row :: "real list list \<Rightarrow> nat \<Rightarrow> nat list \<Rightarrow> matrix \<Rightarrow> py_error + matrix" where
  "fill_row all_features i [] rdm = Inr rdm"
| "fill_row all_features i (j # js) rdm =
     (case cosine (all_features ! i) (all_features ! j) of
        Inl e \<Rightarrow> Inl e
      | Inr distance \<Rightarrow>
          fill_row all_features i js (set_entry (set_entry rdm i j distance) j i distance))"

fun fill_rows :: "real list list \<Rightarrow> nat list \<Rightarrow> matrix \<Rightarrow> py_error + matrix" where
  "fill_rows all_features [] rdm = Inr rdm"
| "fill_rows all_features (i # is) rdm =
     (case fill_row all_features i [i + 1 ..< length all_features] rdm of
        Inl e \<Rightarrow> Inl e
      | Inr rdm' \<Rightarrow> fill_rows all_features is rdm')"

definition create_feature_rdm :: "session \<Rightarrow> py_error + matrix" where
  "create_feature_rdm session_data =
     (let all_features = feature_vectors session_data
      in if length all_features < 2 then Inr []
         else (let n = length all_features
               in fill_rows all_features [0 ..< n] (zeros n)))"

text \<open>
  A session of two responses whose feature dictionaries have different keys: the second
  has one feature more than the first.
\<close>

definition uneven_session :: session where
  "uneven_session =
     \<lparr> session_timestamp = ''2024-01-01'', model = ''test-model'',
       responses =
         [(''concrete'',
             [\<lparr> prompt = ''test'', response_text = ''test response'',
                features = [(''visual'', 0.5)],
                pattern = ''CCDF'', timestamp = [], task_type = None \<rparr>]),
          (''internal'',
             [\<lparr> prompt = ''test2'', response_text = ''test response 2'',
                features = [(''visual'', 0.5), (''social'', 0.5)],
                pattern = ''AADS'', timestamp = [], task_type = None \<rparr>])] \<rparr>"

section \<open>Pattern evolution\<close>

text \<open>
  \<^verbatim>\<open>max(d, key=d.get)\<close> on a non-empty dictionary: Python's \<^verbatim>\<open>max\<close> walks the keys in
  insertion order and replaces its candidate only by a strictly greater value, so it
  returns the first key of greatest value.
\<close>

fun max_from :: "'k \<times> 'v::linorder \<Rightarrow> ('k \<times> 'v) list \<Rightarrow> 'k \<times> 'v" where
  "max_from best [] = best"
| "max_from best (kv # rest) = max_from (if snd best < snd kv then kv else best) rest"

text \<open>
  \<^verbatim>\<open>counts[k] = counts.get(k, 0) + 1\<close>: a new key goes to the end of the dictionary, a known
  key keeps its place.
\<close>

definition increment :: "(string \<times> nat) list \<Rightarrow> string \<Rightarrow> (string \<times> nat) list" where
  "increment counts k =
     AList.update k ((case map_of counts k of None \<Rightarrow> 0 | Some c \<Rightarrow> c) + 1) counts"

definition count_keys :: "string list \<Rightarrow> (string \<times> nat) list" where
  "count_keys ks = fold (\<lambda>k counts. increment counts k) ks []"

text \<open>The first loop of \<^verbatim>\<open>analyze_pattern_signatures\<close>: pairs of pattern and task.\<close>

fun collect_patterns :: "string list \<Rightarrow> (string \<times> response list) list \<Rightarrow> (string \<times> string) list" where
  "collect_patterns [] rs = []"
| "collect_patterns (t # ts) rs =
     (case map_of rs t of
        None \<Rightarrow> collect_patterns ts rs
      | Some l \<Rightarrow> map (\<lambda>resp. (pattern resp, t)) l @ collect_patterns ts rs)"

record pattern_summary =
  all_patterns :: "(string \<times> string) list"
  transitions :: "string list"
  transition_frequencies :: "(string \<times> nat) list"
  dominant_pattern :: string
  pattern_diversity :: nat

definition analyze_pattern_signatures :: "session \<Rightarrow> pattern_summary" where
  "analyze_pattern_signatures data =
     (let patterns = collect_patterns task_order (responses data);
          transitions = map (\<lambda>i. fst (patterns ! (i - 1)) @ arrow @ fst (patterns ! i))
                            [1 ..< length patterns];
          transition_counts = count_keys transitions;
          pattern_counts = count_keys (map fst patterns);
          dominant_pattern =
            (case pattern_counts of [] \<Rightarrow> ''None'' | kv # rest \<Rightarrow> fst (max_from kv rest))
      in \<lparr> all_patterns = patterns,
           transitions = transitions,
           transition_frequencies = transition_counts,
           dominant_pattern = dominant_pattern,
           pattern_diversity = length (remdups (map fst patterns)) \<rparr>)"

text \<open>
  The pattern labels of a session in the flattening order, and the label the
  specification calls dominant: one of greatest count such that every label met before
  its first occurrence has a smaller count.
\<close>

definition session_patterns :: "session \<Rightarrow> string list" where
  "session_patterns data = map pattern (flattened data)"

definition first_most_frequent :: "string list \<Rightarrow> string \<Rightarrow> bool" where
  "first_most_frequent ps d \<longleftrightarrow>
     d \<in> set ps
     \<and> list_all (\<lambda>q. count_list ps q \<le> count_list ps d) ps
     \<and> list_all (\<lambda>q. count_list ps q < count_list ps d) (takeWhile (\<lambda>q. q \<noteq> d) ps)"

text \<open>The keys of a counting dictionary: the labels in the order of their first occurrence.\<close>

definition firsts :: "'a list \<Rightarrow> 'a list" where
  "firsts ks = rev (remdups (rev ks))"

section \<open>Dominant processing mode\<close>

text \<open>
  An entry of the batch \<^verbatim>\<open>all_results\<close>; \<^verbatim>\<open>identify_dominant_processing_mode\<close> reads its
  \<^verbatim>\<open>data\<close> only.
\<close>

record batch_result =
  result_model :: string
  result_data :: session

definition batch_responses :: "batch_result list \<Rightarrow> response list" where
  "batch_responses all_results =
     concat (map (\<lambda>result. concat (map snd (responses (result_data result)))) all_results)"

text \<open>
  \<^verbatim>\<open>identify_dominant_processing_mode\<close>. The result is decided by comparisons of
  the means, so the rounding of \<^verbatim>\<open>np.mean\<close> matters: \<^verbatim>\<open>np.mean\<close> in binary64 is a
  parameter, a function from a list of numbers to a number of which nothing is assumed.
\<close>

definition identify_dominant_processing_mode ::
  "(real list \<Rightarrow> real) \<Rightarrow> batch_result list \<Rightarrow> string" where
  "identify_dominant_processing_mode float_mean all_results =
     (let resps = batch_responses all_results;
          internal = map (\<lambda>resp. float_mean (map (get0 (features resp)) internal_features)) resps;
          external = map (\<lambda>resp. float_mean (map (get0 (features resp)) external_features)) resps;
          concrete = map (\<lambda>resp. float_mean (map (get0 (features resp)) concrete_features)) resps
      in fst (max_from (''internal'', if internal \<noteq> [] then float_mean internal else 0)
                       [(''external'', if external \<noteq> [] then float_mean external else 0),
                        (''concrete'', if concrete \<noteq> [] then float_mean concrete else 0)]))"

text \<open>
  The mean of a factor group over a batch, as the code computes it: the mean, over every
  response of the batch, of the mean of the response's scores in the group; 0 for a batch
  without responses.
\<close>

definition group_score :: "(real list \<Rightarrow> real) \<Rightarrow> string list \<Rightarrow> response \<Rightarrow> real" where
  "group_score float_mean grp resp = float_mean (map (\<lambda>f. get0 (features resp) f) grp)"

definition batch_mean :: "(real list \<Rightarrow> real) \<Rightarrow> string list \<Rightarrow> batch_result list \<Rightarrow> real" where
  "batch_mean float_mean grp all_results =
     (if batch_responses all_results = [] then 0
      else float_mean (map (group_score float_mean grp) (batch_responses all_results)))"

text \<open>
  One behaviour of the parameter: the mean in binary64 arithmetic for numbers in the
  normal range. \<open>to_binary64\<close> rounds a real to 53 significant bits, to nearest and ties to
  even; it scales the number into the interval from \<open>2^52\<close> to \<open>2^53\<close>, where the doubles
  are the integers, in at most the given number of steps. The mean adds from left to
  right, as numpy does for fewer than eight numbers, and divides by the count, each
  operation rounded.
\<close>

definition round_half_even :: "real \<Rightarrow> real" where
  "round_half_even m =
     (let f = \<lfloor>m\<rfloor>; d = m - of_int f
      in if d < 1 / 2 then of_int f
         else if 1 / 2 < d then of_int f + 1
         else if even f then of_int f else of_int f + 1)"

fun round_scaled :: "nat \<Rightarrow> real \<Rightarrow> real" where
  "round_scaled 0 x = x"
| "round_scaled (Suc n) x =
     (if x < 2 ^ 52 then round_scaled n (2 * x) / 2
      else if 2 ^ 53 \<le> x then 2 * round_scaled n (x / 2)
      else round_half_even x)"

definition to_binary64 :: "real \<Rightarrow> real" where
  "to_binary64 x =
     (if x = 0 then 0
      else if x < 0 then - round_scaled 1100 (- x)
      else round_scaled 1100 x)"

definition binary64_mean :: "real list \<Rightarrow> real" where
  "binary64_mean xs =
     to_binary64 (foldl (\<lambda>acc x. to_binary64 (acc + x)) 0 xs / real (length xs))"

text \<open>
  A batch of one response whose fourteen features all have the double of \<^verbatim>\<open>0.1\<close>: the
  three group means tie in exact arithmetic and differ in binary64.
\<close>

definition uniform_batch :: "batch_result list" where
  "uniform_batch =
     [\<lparr> result_model = ''test-model'',
        result_data =
          \<lparr> session_timestamp = ''2024-01-01'', model = ''test-model'',
            responses =
              [(''concrete'',
                  [\<lparr> prompt = ''test'', response_text = ''test response'',
                     features = map (\<lambda>f. (f, to_binary64 (1 / 10)))
                                    (internal_features @ external_features @ concrete_features),
                     pattern = ''CCDF'', timestamp = [], task_type = None \<rparr>])] \<rparr> \<rparr>]"

text \<open>A batch of one entry, the session of \<^verbatim>\<open>test_fix.py\<close>.\<close>

definition test_batch :: "batch_result list" where
  "test_batch = [\<lparr> result_model = ''test-model'', result_data = test_session \<rparr>]"

text \<open>
  A session whose two labels tie with two occurrences each. Its map lists the internal
  task first; the flattening starts with the concrete task.
\<close>

definition tie_session :: session where
  "tie_session =
     \<lparr> session_timestamp = ''2024-01-01'', model = ''test-model'',
       responses =
         [(''internal'',
             [\<lparr> prompt = ''p3'', response_text = ''r3'', features = [(''social'', 0.5)],
                pattern = ''CCDF'', timestamp = [], task_type = None \<rparr>,
              \<lparr> prompt = ''p4'', response_text = ''r4'', features = [(''social'', 0.5)],
                pattern = ''AADS'', timestamp = [], task_type = None \<rparr>]),
          (''concrete'',
             [\<lparr> prompt = ''p1'', response_text = ''r1'', features = [(''visual'', 0.5)],
                pattern = ''AADS'', timestamp = [], task_type = None \<rparr>,
              \<lparr> prompt = ''p2'', response_text = ''r2'', features = [(''visual'', 0.5)],
                pattern = ''CCDF'', timestamp = [], task_type = None \<rparr>])] \<rparr>"

section \<open>Significance test\<close>

text \<open>
  A stored session of the batch that \<^verbatim>\<open>calculate_comprehensive_stats\<close> reads
  (\<^verbatim>\<open>create_scientific_summary.py\<close>), with the two keys the test depends on: the model,
  \<^verbatim>\<open>session.get('model', 'unknown')\<close>, and the coherence score, present when the session
  has \<^verbatim>\<open>analysis\<close> with \<^verbatim>\<open>coherence_score\<close>.
\<close>

record stored_session =
  stored_model :: "string option"
  stored_coherence :: "real option"

definition model_of :: "stored_session \<Rightarrow> string" where
  "model_of session = (case stored_model session of None \<Rightarrow> ''unknown'' | Some m \<Rightarrow> m)"

text \<open>
  One round of the loop over \<^verbatim>\<open>all_sessions\<close>, for the dictionary
  \<^verbatim>\<open>coherence_by_model\<close>: a model met for the first time gets the empty list (the test
  \<^verbatim>\<open>model not in stats['by_model']\<close> is on a dictionary with the same keys), then the score
  of the session, if it has one, is appended.
\<close>

definition add_session ::
  "stored_session \<Rightarrow> (string \<times> real list) list \<Rightarrow> (string \<times> real list) list" where
  "add_session session cbm =
     (let model = model_of session;
          cbm1 = (case map_of cbm model of None \<Rightarrow> AList.update model [] cbm | Some scores \<Rightarrow> cbm)
      in case stored_coherence session of
           None \<Rightarrow> cbm1
         | Some coherence \<Rightarrow> AList.map_entry model (\<lambda>scores. scores @ [coherence]) cbm1)"

definition coherence_by_model :: "stored_session list \<Rightarrow> (string \<times> real list) list" where
  "coherence_by_model all_sessions = fold add_session all_sessions []"

record anova_result =
  f_statistic :: real
  p_value :: real
  significant :: bool

text \<open>
  The last block of \<^verbatim>\<open>calculate_comprehensive_stats\<close>; \<open>None\<close> is the entry
  \<^verbatim>\<open>stats['statistical_tests']['anova']\<close> being absent. \<^verbatim>\<open>scipy.stats.f_oneway\<close>, a library
  function that returns the pair of F statistic and p-value for two or more non-empty
  groups, is a parameter. \<^verbatim>\<open>unique_models\<close> is a Python set turned into a list, whose
  order Python does not fix; the model takes the order of first occurrence.
\<close>

definition anova ::
  "(real list list \<Rightarrow> real \<times> real) \<Rightarrow> stored_session list \<Rightarrow> anova_result option" where
  "anova f_oneway all_sessions =
     (let cbm = coherence_by_model all_sessions;
          unique_models = map fst cbm
      in if length unique_models \<ge> 2
            \<and> list_all (\<lambda>m. length (case map_of cbm m of None \<Rightarrow> [] | Some g \<Rightarrow> g) \<ge> 2)
                  unique_models
         then (let model_groups =
                     concat (map (\<lambda>m. case map_of cbm m of None \<Rightarrow> [] | Some g \<Rightarrow> [g])
                                 unique_models)
               in if list_all (\<lambda>g. length g > 0) model_groups
                  then (let (f_stat, p) = f_oneway model_groups
                        in Some \<lparr> f_statistic = f_stat, p_value = p, significant = (p < 0.05) \<rparr>)
                  else None)
         else None)"

text \<open>
  The distinct models of a batch and the coherence samples of a model, as the
  specification names them.
\<close>

definition models_of :: "stored_session list \<Rightarrow> string list" where
  "models_of all_sessions = firsts (map model_of all_sessions)"

definition samples :: "stored_session list \<Rightarrow> string \<Rightarrow> real list" where
  "samples all_sessions m =
     concat (map (\<lambda>session. case stored_coherence session of None \<Rightarrow> [] | Some c \<Rightarrow> [c])
                 (filter (\<lambda>session. model_of session = m) all_sessions))"

text \<open>The models of a batch that have at least two coherence samples.\<close>

definition well_sampled :: "stored_session list \<Rightarrow> string list" where
  "well_sampled all_sessions =
     filter (\<lambda>m. 2 \<le> length (samples all_sessions m)) (models_of all_sessions)"

text \<open>
  Two batches: models A and B with two scores each, and the same with a third model C of
  one score. For the groups of A and B the F statistic is 72 and the p-value 0.0136 to
  four places; a function that returns this pair stands for \<^verbatim>\<open>f_oneway\<close> on them.
\<close>

definition example_f_oneway :: "real list list \<Rightarrow> real \<times> real" where
  "example_f_oneway groups = (72, 0.0136)"

definition two_model_batch :: "stored_session list" where
  "two_model_batch =
     [\<lparr> stored_model = Some ''A'', stored_coherence = Some 0.8 \<rparr>,
      \<lparr> stored_model = Some ''A'', stored_coherence = Some 0.9 \<rparr>,
      \<lparr> stored_model = Some ''B'', stored_coherence = Some 0.2 \<rparr>,
      \<lparr> stored_model = Some ''B'', stored_coherence = Some 0.3 \<rparr>]"

definition three_model_batch :: "stored_session list" where
  "three_model_batch = two_model_batch @ [\<lparr> stored_model = Some ''C'', stored_coherence = Some 0.5 \<rparr>]"

section \<open>Session analysis\<close>

record 'r session_analysis =
  dimensional_shifts :: "shift_data list"
  rsa_patterns :: 'r
  feature_trajectories :: "trajectories \<times> (string \<times> stability) list"
  pattern_evolution :: pattern_summary
  coherence_score :: real

text \<open>
  \<^verbatim>\<open>analyze_session\<close>. The dictionary display evaluates its values in the order written:
  \<^verbatim>\<open>calculate_dimensional_shifts\<close> first, which writes the task types into the session,
  then the four other functions, which read the session after these writes and write
  nothing. The RSA summary (\<^verbatim>\<open>_convert_rsa_to_serializable\<close> of
  \<^verbatim>\<open>rsa_engine.analyze_patterns\<close>) reads the session only and may raise; it is a parameter,
  as is \<^verbatim>\<open>pearsonr\<close>, which the trend of a trajectory calls.
  The result is the session after the call, with the analysis or the exception.
\<close>

definition analyze_session ::
  "(session \<Rightarrow> py_error + 'r) \<Rightarrow> correlation_fn \<Rightarrow> session
     \<Rightarrow> session \<times> (py_error + 'r session_analysis)" where
  "analyze_session rsa pearsonr session_data =
     (let (data', shifts) = calculate_dimensional_shifts session_data
      in (data',
          case rsa data' of
            Inl e \<Rightarrow> Inl e
          | Inr r \<Rightarrow>
              (case track_feature_changes pearsonr data' of
                 Inl e \<Rightarrow> Inl e
               | Inr t \<Rightarrow>
                   Inr \<lparr> dimensional_shifts = shifts,
                         rsa_patterns = r,
                         feature_trajectories = t,
                         pattern_evolution = analyze_pattern_signatures data',
                         coherence_score = calculate_coherence data' \<rparr>)))"


section \<open>Verification: dimensional shifts\<close>


lemma collect_fst:
  "distinct ts \<Longrightarrow> map_of (fst (collect_responses ts rs acc)) u =
     (if u \<in> set ts then map_option (map (\<lambda>resp. resp\<lparr>task_type := Some u\<rparr>)) (map_of rs u) else map_of rs u)"
proof (induction ts arbitrary: rs acc)
  case Nil
  then show ?case by simp
next
  case (Cons t ts)
  show ?case
  proof (cases "map_of rs t")
    case None
    with Cons show ?thesis by auto
  next
    case (Some l)
    with Cons show ?thesis by (auto simp: Let_def update_conv')
  qed
qed

lemma collect_keys:
  "map fst (fst (collect_responses ts rs acc)) = map fst rs"
proof (induction ts arbitrary: rs acc)
  case Nil
  then show ?case by simp
next
  case (Cons t ts)
  show ?case
  proof (cases "map_of rs t")
    case None
    with Cons show ?thesis by auto
  next
    case (Some l)
    then have "t \<in> fst ` set rs" by (metis map_of_eq_None_iff option.distinct(1))
    then have "map fst (AList.update t v rs) = map fst rs" for v
      by (simp add: update_keys)
    with Cons Some show ?thesis by (auto simp: Let_def)
  qed
qed

lemma distinct_task_order: "distinct task_order" by (simp add: task_order_def)







section \<open>Verification: similarity and coherence\<close>
























section \<open>Verification: trajectories\<close>

text \<open>
  Claim C3 fails on the session of \<^verbatim>\<open>test_fix.py\<close>: the session has two responses, none
  with the feature \<^verbatim>\<open>space\<close>, and the trajectory of \<^verbatim>\<open>space\<close> is empty, that of
  \<^verbatim>\<open>visual\<close> has the two values.
\<close>

theorem trajectories_skip_missing_features:
  "length (flattened test_session) = 2
   \<and> (case track_feature_changes pearsonr test_session of
         Inl e \<Rightarrow> None
       | Inr (traj, stab) \<Rightarrow> map_of traj ''space'') = Some []
   \<and> (case track_feature_changes pearsonr test_session of
         Inl e \<Rightarrow> None
       | Inr (traj, stab) \<Rightarrow> map_of traj ''visual'') = Some [0.5, 0.7]"
proof -
  have "\<exists>traj. collect_trajectories task_order (responses test_session)
             (map (\<lambda>feature. (feature, [])) all_feature_names) = Inr traj
          \<and> map_of traj ''space'' = Some [] \<and> map_of traj ''visual'' = Some [0.5, 0.7]"
    by (simp add: task_order_def test_session_def all_feature_names_def internal_features_def
          external_features_def concrete_features_def)
  then show ?thesis
    by (auto simp: track_feature_changes_def flattened_def responses_of_def test_session_def)
qed

section \<open>Verification: feature dissimilarity matrix\<close>

text \<open>
  Claim C7 fails on a session whose two responses have feature dictionaries of different
  sizes: the vectors have different lengths and \<^verbatim>\<open>cosine\<close> raises \<^verbatim>\<open>ValueError\<close>.
\<close>

theorem feature_rdm_raises_on_uneven_keys:
  "create_feature_rdm uneven_session = Inl ValueError"
  by (simp add: create_feature_rdm_def feature_vectors_def uneven_session_def cosine_def
        upt_conv_Cons)

section \<open>Verification: trend classification\<close>

lemma remdups_one_iff: "length (remdups vs) = 1 \<longleftrightarrow> vs \<noteq> [] \<and> (\<forall>v\<in>set vs. v = hd vs)"
proof
  assume "length (remdups vs) = 1"
  then have c: "card (set vs) = 1" by (simp add: length_remdups_card_conv)
  then obtain a where a: "set vs = {a}" by (auto simp: card_1_singleton_iff)
  then have "vs \<noteq> []" by auto
  moreover from this have "hd vs \<in> set vs" by simp
  ultimately show "vs \<noteq> [] \<and> (\<forall>v\<in>set vs. v = hd vs)" using a by auto
next
  assume r: "vs \<noteq> [] \<and> (\<forall>v\<in>set vs. v = hd vs)"
  then have "set vs = {hd vs}" by (auto simp: hd_in_set)
  then show "length (remdups vs) = 1" by (simp add: length_remdups_card_conv)
qed

lemma trend_of_correlation_label:
  "trend_of_correlation c \<in> {''stable'', ''increasing'', ''decreasing''}"
proof (cases c)
  case (Inl e)
  then show ?thesis by simp
next
  case (Inr r)
  then show ?thesis by (cases r) simp_all
qed

lemma trend_after_correlation:
  "(case c of
      Inl e \<Rightarrow> ''stable''
    | Inr None \<Rightarrow> ''stable''
    | Inr (Some correlation) \<Rightarrow>
        if correlation > 0.3 then ''increasing''
        else if correlation < - 0.3 then ''decreasing''
        else ''stable'') = trend_of_correlation c"
proof (cases c)
  case (Inl e)
  then show ?thesis by simp
next
  case (Inr r)
  then show ?thesis by (cases r) simp_all
qed

text \<open>
  Claim C4. A trajectory of at least two points is \<^verbatim>\<open>stable\<close> when all its values are
  equal, and then no correlation is computed: the label does not depend on what
  \<^verbatim>\<open>pearsonr\<close> would return. Otherwise the label follows the correlation that
  \<^verbatim>\<open>pearsonr\<close> returns for the positions and the values: \<^verbatim>\<open>increasing\<close> above 0.3,
  \<^verbatim>\<open>decreasing\<close> below -0.3, \<^verbatim>\<open>stable\<close> otherwise, and \<^verbatim>\<open>stable\<close> too when
  \<^verbatim>\<open>pearsonr\<close> raises or returns NaN. The function returns one of the three labels
  whatever \<^verbatim>\<open>pearsonr\<close> does.
\<close>

theorem trend_classification:
  assumes "2 \<le> length values"
  shows "calculate_trend pearsonr values =
           (if \<forall>v\<in>set values. v = hd values then ''stable''
            else trend_of_correlation (pearsonr (positions values) values))
         \<and> calculate_trend pearsonr values \<in> {''stable'', ''increasing'', ''decreasing''}"
proof -
  have pos: "arange (length values) = positions values"
    by (simp add: arange_def positions_def)
  have eq: "calculate_trend pearsonr values =
           (if \<forall>v\<in>set values. v = hd values then ''stable''
            else trend_of_correlation (pearsonr (positions values) values))"
  proof (cases "\<forall>v\<in>set values. v = hd values")
    case True
    moreover from assms have "values \<noteq> []" by auto
    ultimately have "values \<noteq> [] \<and> (\<forall>v\<in>set values. v = hd values)" by simp
    then have "length (remdups values) = 1" by (rule iffD2 [OF remdups_one_iff])
    with assms True show ?thesis by (simp add: calculate_trend_def)
  next
    case False
    have nr: "length (remdups values) \<noteq> 1"
    proof
      assume "length (remdups values) = 1"
      then have "values \<noteq> [] \<and> (\<forall>v\<in>set values. v = hd values)"
        by (rule iffD1 [OF remdups_one_iff])
      with False show False by simp
    qed
    have "calculate_trend pearsonr values
        = (case pearsonr (arange (length values)) values of
             Inl e \<Rightarrow> ''stable''
           | Inr None \<Rightarrow> ''stable''
           | Inr (Some correlation) \<Rightarrow>
               if correlation > 0.3 then ''increasing''
               else if correlation < - 0.3 then ''decreasing''
               else ''stable'')"
      using assms nr by (simp add: calculate_trend_def)
    also have "\<dots> = trend_of_correlation (pearsonr (positions values) values)"
      unfolding pos by (rule trend_after_correlation)
    finally have "calculate_trend pearsonr values
        = trend_of_correlation (pearsonr (positions values) values)" .
    then show ?thesis by (simp only: if_not_P [OF False])
  qed
  have "calculate_trend pearsonr values \<in> {''stable'', ''increasing'', ''decreasing''}"
  proof (cases "\<forall>v\<in>set values. v = hd values")
    case True
    with eq show ?thesis by simp
  next
    case False
    have "calculate_trend pearsonr values
        = trend_of_correlation (pearsonr (positions values) values)"
      using eq by (simp only: if_not_P [OF False])
    then show ?thesis by (simp only: trend_of_correlation_label)
  qed
  with eq show ?thesis by simp
qed

lemma upt_5: "[0 ..< 5] = [0, 1, 2, 3, 4]"
  by code_simp

lemma exact_rising:
  "exact_pearsonr (positions [0.1, 0.2, 0.3, 0.4, 0.5]) [0.1, 0.2, 0.3, 0.4, 0.5] = Inr (Some 1)"
proof -
  have "sqrt 10 * sqrt (1 / 10) = sqrt (10 * (1 / 10))"
    by (simp only: real_sqrt_mult)
  then have r: "sqrt 10 * sqrt (1 / 10) = 1" by simp
  have "exact_pearsonr (positions [0.1, 0.2, 0.3, 0.4, 0.5]) [0.1, 0.2, 0.3, 0.4, 0.5]
      = Inr (Some (max (min (1 / (sqrt 10 * sqrt (1 / 10))) 1) (- 1)))"
    by (simp add: exact_pearsonr_def positions_def upt_5 is_constant_def np_mean_def dot_def
          Let_def del: real_sqrt_divide)
  then show ?thesis by (simp only: r) simp
qed

lemma exact_falling:
  "exact_pearsonr (positions [0.5, 0.4, 0.3, 0.2, 0.1]) [0.5, 0.4, 0.3, 0.2, 0.1] = Inr (Some (- 1))"
proof -
  have "sqrt 10 * sqrt (1 / 10) = sqrt (10 * (1 / 10))"
    by (simp only: real_sqrt_mult)
  then have r: "sqrt 10 * sqrt (1 / 10) = 1" by simp
  have "exact_pearsonr (positions [0.5, 0.4, 0.3, 0.2, 0.1]) [0.5, 0.4, 0.3, 0.2, 0.1]
      = Inr (Some (max (min (- 1 / (sqrt 10 * sqrt (1 / 10))) 1) (- 1)))"
    by (simp add: exact_pearsonr_def positions_def upt_5 is_constant_def np_mean_def dot_def
          Let_def del: real_sqrt_divide)
  then show ?thesis by (simp only: r) simp
qed

theorem trend_classification_witness:
  "2 \<le> length [0.1, 0.2, 0.3, 0.4, 0.5 :: real]
   \<and> calculate_trend exact_pearsonr [0.1, 0.2, 0.3, 0.4, 0.5] = ''increasing''
   \<and> calculate_trend exact_pearsonr [0.5, 0.4, 0.3, 0.2, 0.1] = ''decreasing''
   \<and> calculate_trend exact_pearsonr [0.5, 0.5, 0.5, 0.5] = ''stable''
   \<and> calculate_trend raising_pearsonr [0.1, 0.2] = ''stable''
   \<and> calculate_trend nan_pearsonr [0.1, 0.2] = ''stable''
   \<and> calculate_trend (fixed_pearsonr 0.30000000000000004) [0.7, 0.9, 0.8, 0.75, 0.85] = ''increasing''"
proof -
  have l5: "2 \<le> length xs" if "length xs = 5" for xs :: "real list"
    using that by simp
  have l2: "2 \<le> length xs" if "length xs = 2" for xs :: "real list"
    using that by simp
  have 1: "calculate_trend exact_pearsonr [0.1, 0.2, 0.3, 0.4, 0.5] = ''increasing''"
    using trend_classification [OF l5, of "[0.1, 0.2, 0.3, 0.4, 0.5]" exact_pearsonr, unfolded exact_rising]
    by simp
  have 2: "calculate_trend exact_pearsonr [0.5, 0.4, 0.3, 0.2, 0.1] = ''decreasing''"
    using trend_classification [OF l5, of "[0.5, 0.4, 0.3, 0.2, 0.1]" exact_pearsonr, unfolded exact_falling]
    by simp
  have 3: "calculate_trend exact_pearsonr [0.5, 0.5, 0.5, 0.5] = ''stable''"
    using trend_classification [of "[0.5, 0.5, 0.5, 0.5]" exact_pearsonr] by simp
  have 4: "calculate_trend raising_pearsonr [0.1, 0.2] = ''stable''"
    using trend_classification [OF l2, of "[0.1, 0.2]" raising_pearsonr]
    by (simp add: raising_pearsonr_def)
  have 5: "calculate_trend nan_pearsonr [0.1, 0.2] = ''stable''"
    using trend_classification [OF l2, of "[0.1, 0.2]" nan_pearsonr]
    by (simp add: nan_pearsonr_def)
  have 6: "calculate_trend (fixed_pearsonr 0.30000000000000004) [0.7, 0.9, 0.8, 0.75, 0.85] = ''increasing''"
    using trend_classification [OF l5, of "[0.7, 0.9, 0.8, 0.75, 0.85]" "fixed_pearsonr 0.30000000000000004"]
    by (simp add: fixed_pearsonr_def)
  from 1 2 3 4 5 6 show ?thesis by simp
qed

section \<open>Verification: dominant processing mode\<close>

lemma batch_scores:
  "(if map (\<lambda>resp. float_mean (map (get0 (features resp)) grp)) (batch_responses rs) \<noteq> []
    then float_mean (map (\<lambda>resp. float_mean (map (get0 (features resp)) grp)) (batch_responses rs))
    else 0)
   = batch_mean float_mean grp rs"
proof -
  have "(\<lambda>resp. float_mean (map (get0 (features resp)) grp)) = group_score float_mean grp"
    by (rule ext) (simp add: group_score_def)
  then show ?thesis by (simp add: batch_mean_def)
qed

text \<open>
  Claim C10. The dominant processing mode of a batch is one of \<^verbatim>\<open>internal\<close>,
  \<^verbatim>\<open>external\<close> and \<^verbatim>\<open>concrete\<close>: the first group, in this order, whose mean over all
  responses of the batch is greatest, the means being the numbers \<^verbatim>\<open>np.mean\<close> returns,
  whatever its rounding. The empty batch gives \<^verbatim>\<open>internal\<close>.
\<close>

theorem dominant_mode_first_maximal:
  "identify_dominant_processing_mode float_mean all_results \<in> {''internal'', ''external'', ''concrete''}
   \<and> identify_dominant_processing_mode float_mean all_results =
       (if batch_mean float_mean external_features all_results
             \<le> batch_mean float_mean internal_features all_results
           \<and> batch_mean float_mean concrete_features all_results
             \<le> batch_mean float_mean internal_features all_results
        then ''internal''
        else if batch_mean float_mean concrete_features all_results
                  \<le> batch_mean float_mean external_features all_results
        then ''external''
        else ''concrete'')
   \<and> identify_dominant_processing_mode float_mean [] = ''internal''"
proof -
  have eq: "identify_dominant_processing_mode float_mean rs =
       fst (max_from (''internal'', batch_mean float_mean internal_features rs)
                       [(''external'', batch_mean float_mean external_features rs),
                        (''concrete'', batch_mean float_mean concrete_features rs)])" for rs
    unfolding identify_dominant_processing_mode_def Let_def batch_scores ..
  have e: "batch_mean float_mean grp [] = 0" for grp
    by (simp add: batch_mean_def batch_responses_def)
  show ?thesis
    unfolding eq by (auto simp: e)
qed

text \<open>
  The rounding function on a number that \<open>k\<close> doublings bring into the interval from
  \<open>2^52\<close> to \<open>2^53\<close>, and the roundings that the means of the uniform batch need.
\<close>

lemma round_scaled_up:
  "2 ^ 52 \<le> x * 2 ^ k \<Longrightarrow> x * 2 ^ k < 2 ^ 53 \<Longrightarrow> k < n
     \<Longrightarrow> round_scaled n x = round_half_even (x * 2 ^ k) / 2 ^ k"
proof (induction k arbitrary: n x)
  case 0
  then obtain n' where "n = Suc n'" by (cases n) auto
  with 0 show ?case by simp
next
  case (Suc k)
  then obtain n' where n: "n = Suc n'" "k < n'" by (cases n) auto
  have "(0::real) < 2 ^ 52" by simp
  with Suc.prems(1) have "0 < x * 2 ^ Suc k" by linarith
  then have pos: "0 < x" by (simp add: zero_less_mult_iff)
  have "x * 1 \<le> x * 2 ^ k" using pos by (intro mult_left_mono) simp_all
  then have "x * 2 \<le> x * 2 ^ Suc k" by simp
  with Suc.prems(2) have small: "x < 2 ^ 52" by simp
  have "round_scaled n' (2 * x) = round_half_even (2 * x * 2 ^ k) / 2 ^ k"
    using Suc.prems n(2) by (intro Suc.IH) (simp_all add: mult_ac)
  with small n(1) show ?case by (simp add: mult_ac)
qed

lemma to_binary64_eval:
  "0 < x \<Longrightarrow> 2 ^ 52 \<le> x * 2 ^ k \<Longrightarrow> x * 2 ^ k < 2 ^ 53 \<Longrightarrow> k < 1100
     \<Longrightarrow> to_binary64 x = round_half_even (x * 2 ^ k) / 2 ^ k"
  by (simp add: to_binary64_def round_scaled_up)

lemma rounding_0:
  "to_binary64 (1 / 10) = 3602879701896397 / 36028797018963968"
  by (subst to_binary64_eval [of _ 56]) (simp_all add: round_half_even_def Let_def)

lemma rounding_1:
  "to_binary64 (3602879701896397 / 36028797018963968) = 3602879701896397 / 36028797018963968"
  by (subst to_binary64_eval [of _ 56]) (simp_all add: round_half_even_def Let_def)

lemma rounding_2:
  "to_binary64 (3602879701896397 / 18014398509481984) = 3602879701896397 / 18014398509481984"
  by (subst to_binary64_eval [of _ 55]) (simp_all add: round_half_even_def Let_def)

lemma rounding_3:
  "to_binary64 (10808639105689191 / 36028797018963968) = 1351079888211149 / 4503599627370496"
  by (subst to_binary64_eval [of _ 54]) (simp_all add: round_half_even_def Let_def)

lemma rounding_4:
  "to_binary64 (14411518807585589 / 36028797018963968) = 3602879701896397 / 9007199254740992"
  by (subst to_binary64_eval [of _ 54]) (simp_all add: round_half_even_def Let_def)

lemma rounding_5:
  "to_binary64 (18014398509481985 / 36028797018963968) = 1 / 2"
  by (subst to_binary64_eval [of _ 53]) (simp_all add: round_half_even_def Let_def)

lemma rounding_6:
  "to_binary64 (21617278211378381 / 36028797018963968) = 5404319552844595 / 9007199254740992"
  by (subst to_binary64_eval [of _ 53]) (simp_all add: round_half_even_def Let_def)

lemma rounding_7:
  "to_binary64 (5404319552844595 / 54043195528445952) = 7205759403792793 / 72057594037927936"
  by (subst to_binary64_eval [of _ 56]) (simp_all add: round_half_even_def Let_def)

lemma rounding_8:
  "to_binary64 (7205759403792793 / 72057594037927936) = 7205759403792793 / 72057594037927936"
  by (subst to_binary64_eval [of _ 56]) (simp_all add: round_half_even_def Let_def)

lemma rounding_9:
  "to_binary64 (1351079888211149 / 13510798882111488) = 7205759403792795 / 72057594037927936"
  by (subst to_binary64_eval [of _ 56]) (simp_all add: round_half_even_def Let_def)

lemma rounding_10:
  "to_binary64 (7205759403792795 / 72057594037927936) = 7205759403792795 / 72057594037927936"
  by (subst to_binary64_eval [of _ 56]) (simp_all add: round_half_even_def Let_def)

lemmas roundings = rounding_0 rounding_1 rounding_2 rounding_3 rounding_4 rounding_5 rounding_6 rounding_7 rounding_8 rounding_9 rounding_10

lemma uniform_means:
  "batch_mean binary64_mean internal_features uniform_batch = 7205759403792793 / 72057594037927936"
  "batch_mean binary64_mean external_features uniform_batch = 7205759403792795 / 72057594037927936"
  "batch_mean binary64_mean concrete_features uniform_batch = 3602879701896397 / 36028797018963968"
  by (simp_all add: batch_mean_def batch_responses_def uniform_batch_def group_score_def get0_def
        internal_features_def external_features_def concrete_features_def binary64_mean_def
        roundings)

theorem dominant_mode_first_maximal_witness:
  "identify_dominant_processing_mode np_mean test_batch = ''concrete''
   \<and> identify_dominant_processing_mode binary64_mean uniform_batch = ''external''
   \<and> identify_dominant_processing_mode np_mean uniform_batch = ''internal''
   \<and> identify_dominant_processing_mode np_mean [] = ''internal''"
proof -
  have r: "batch_responses test_batch = flattened test_session"
    by (simp add: batch_responses_def test_batch_def test_session_def flattened_def responses_of_def)
  have f: "map features (flattened test_session) =
      [[(''visual'', 0.5), (''tactile'', 0.5), (''social'', 0.5), (''emotion'', 0.5)],
       [(''visual'', 0.7), (''tactile'', 0.7), (''social'', 0.7), (''emotion'', 0.7)]]"
    by (simp add: test_session_def flattened_def responses_of_def)
  have m: "batch_mean np_mean grp test_batch
      = np_mean (map (\<lambda>fv. np_mean (map (get0 fv) grp)) (map features (flattened test_session)))" for grp
    by (simp add: batch_mean_def r comp_def test_session_def flattened_def responses_of_def
          group_score_def)
  have i: "batch_mean np_mean internal_features test_batch = 1 / 5"
    unfolding m f by (simp add: np_mean_def get0_def internal_features_def)
  have e: "batch_mean np_mean external_features test_batch = 0"
    unfolding m f by (simp add: np_mean_def get0_def external_features_def)
  have c: "batch_mean np_mean concrete_features test_batch = 6 / 25"
    unfolding m f by (simp add: np_mean_def get0_def concrete_features_def)
  have t: "identify_dominant_processing_mode np_mean test_batch = ''concrete''"
    using dominant_mode_first_maximal [of np_mean test_batch] by (simp add: i e c)
  have u: "identify_dominant_processing_mode binary64_mean uniform_batch = ''external''"
    using dominant_mode_first_maximal [of binary64_mean uniform_batch] by (simp add: uniform_means)
  have x: "batch_mean np_mean grp uniform_batch = to_binary64 (1 / 10)"
    if "grp \<in> {internal_features, external_features, concrete_features}" for grp
    using that
    by (auto simp: batch_mean_def batch_responses_def uniform_batch_def group_score_def np_mean_def
          get0_def internal_features_def external_features_def concrete_features_def)
  have v: "identify_dominant_processing_mode np_mean uniform_batch = ''internal''"
    using dominant_mode_first_maximal [of np_mean uniform_batch] by (simp add: x)
  from t u v dominant_mode_first_maximal [of np_mean "[]", THEN conjunct2, THEN conjunct2]
  show ?thesis by simp
qed

section \<open>Verification: pattern evolution\<close>

lemma firsts_snoc: "firsts (ks @ [k]) = (if k \<in> set ks then firsts ks else firsts ks @ [k])"
  by (simp add: firsts_def)

lemma set_firsts: "set (firsts ks) = set ks"
  by (simp add: firsts_def)

lemma distinct_firsts: "distinct (firsts ks)"
  by (simp add: firsts_def)

lemma remdups_append_filter:
  "remdups (xs @ ys) = filter (\<lambda>x. x \<notin> set ys) (remdups xs) @ remdups ys"
  by (induction xs) auto

lemma firsts_prefix:
  assumes "d \<notin> set pre"
  shows "\<exists>G. firsts (pre @ d # post) = firsts pre @ d # G"
proof -
  have "remdups (rev post @ d # rev pre)
      = filter (\<lambda>x. x \<notin> set (d # rev pre)) (remdups (rev post)) @ remdups (d # rev pre)"
    by (rule remdups_append_filter)
  also have "remdups (d # rev pre) = d # remdups (rev pre)"
    using assms by simp
  finally show ?thesis
    by (simp add: firsts_def)
qed

lemma map_of_tabulate:
  "map_of (map (\<lambda>k. (k, f k)) L) k = (if k \<in> set L then Some (f k) else None)"
  by (induction L) auto

lemma update_tabulate:
  "distinct L \<Longrightarrow> AList.update k v (map (\<lambda>x. (x, f x)) L)
     = (if k \<in> set L then map (\<lambda>x. (x, (f(k := v)) x)) L
        else map (\<lambda>x. (x, f x)) L @ [(k, v)])"
  by (induction L) auto

lemma count_keys_snoc: "count_keys (ks @ [k]) = increment (count_keys ks) k"
  by (simp add: count_keys_def)

lemma count_keys_firsts:
  "count_keys ks = map (\<lambda>k. (k, count_list ks k)) (firsts ks)"
proof (induction ks rule: rev_induct)
  case Nil
  then show ?case by (simp add: count_keys_def firsts_def)
next
  case (snoc k ks)
  have c: "count_list (ks @ [k]) x = (if x = k then count_list ks k + 1 else count_list ks x)" for x
    by simp
  show ?case
  proof (cases "k \<in> set ks")
    case True
    then have "increment (map (\<lambda>k. (k, count_list ks k)) (firsts ks)) k
        = map (\<lambda>x. (x, ((count_list ks)(k := count_list ks k + 1)) x)) (firsts ks)"
      by (simp add: increment_def map_of_tabulate update_tabulate set_firsts distinct_firsts)
    also have "\<dots> = map (\<lambda>x. (x, count_list (ks @ [k]) x)) (firsts (ks @ [k]))"
      using True by (simp add: firsts_snoc)
    finally show ?thesis by (simp only: count_keys_snoc snoc.IH)
  next
    case False
    then have "increment (map (\<lambda>k. (k, count_list ks k)) (firsts ks)) k
        = map (\<lambda>x. (x, count_list ks x)) (firsts ks) @ [(k, 1)]"
      by (simp add: increment_def map_of_tabulate update_tabulate set_firsts distinct_firsts)
    also have "\<dots> = map (\<lambda>x. (x, count_list (ks @ [k]) x)) (firsts (ks @ [k]))"
      using False by (auto simp: firsts_snoc set_firsts)
    finally show ?thesis by (simp only: count_keys_snoc snoc.IH)
  qed
qed

lemma max_from_split:
  assumes "\<forall>x\<in>set A. snd x < snd best" "\<forall>x\<in>set M. snd x \<le> snd best"
  shows "\<exists>A' B. A @ best # M @ rest = A' @ max_from best rest # B
           \<and> (\<forall>x\<in>set A'. snd x < snd (max_from best rest))
           \<and> (\<forall>x\<in>set B. snd x \<le> snd (max_from best rest))"
  using assms
proof (induction rest arbitrary: A best M)
  case Nil
  then show ?case by auto
next
  case (Cons kv rest)
  show ?case
  proof (cases "snd best < snd kv")
    case True
    have "\<exists>A' B. (A @ best # M) @ kv # [] @ rest = A' @ max_from kv rest # B
           \<and> (\<forall>x\<in>set A'. snd x < snd (max_from kv rest))
           \<and> (\<forall>x\<in>set B. snd x \<le> snd (max_from kv rest))"
      using Cons.prems True by (intro Cons.IH) auto
    with True show ?thesis by simp
  next
    case False
    have "\<exists>A' B. A @ best # (M @ [kv]) @ rest = A' @ max_from best rest # B
           \<and> (\<forall>x\<in>set A'. snd x < snd (max_from best rest))
           \<and> (\<forall>x\<in>set B. snd x \<le> snd (max_from best rest))"
      using Cons.prems False by (intro Cons.IH) auto
    with False show ?thesis by simp
  qed
qed

lemma takeWhile_split: "d \<notin> set xs \<Longrightarrow> takeWhile (\<lambda>q. q \<noteq> d) (xs @ d # ys) = xs"
  by (induction xs) auto

lemma map_split:
  assumes "map f xs = A @ r # B"
  shows "\<exists>A' d B'. xs = A' @ d # B' \<and> A = map f A' \<and> r = f d \<and> B = map f B'"
proof -
  let ?n = "length A"
  have "length (map f xs) = length (A @ r # B)"
    by (simp only: assms)
  then have n: "?n < length xs" by simp
  have 1: "xs = take ?n xs @ xs ! ?n # drop (Suc ?n) xs"
    using n by (rule id_take_nth_drop)
  have "map f (take ?n xs) = take ?n (map f xs)"
    by (simp only: take_map)
  then have 2: "A = map f (take ?n xs)"
    by (simp add: assms)
  have "f (xs ! ?n) = map f xs ! ?n"
    using n by simp
  then have 3: "r = f (xs ! ?n)"
    by (simp add: assms)
  have "map f (drop (Suc ?n) xs) = drop (Suc ?n) (map f xs)"
    by (simp only: drop_map)
  then have 4: "B = map f (drop (Suc ?n) xs)"
    by (simp add: assms)
  from 1 2 3 4 show ?thesis by (intro exI conjI)
qed

lemma dominant_of_counts:
  assumes "ps \<noteq> []"
  shows "first_most_frequent ps
           (case count_keys ps of [] \<Rightarrow> ''None'' | kv # rest \<Rightarrow> fst (max_from kv rest))"
proof -
  let ?f = "\<lambda>k. (k, count_list ps k)"
  from assms have "set (firsts ps) \<noteq> {}"
    by (simp add: set_firsts)
  then have "firsts ps \<noteq> []" by auto
  then obtain k0 F0 where F: "firsts ps = k0 # F0" by (cases "firsts ps") auto
  then have ck: "count_keys ps = ?f k0 # map ?f F0" by (simp add: count_keys_firsts)
  let ?r = "max_from (?f k0) (map ?f F0)"
  from max_from_split [of "[]" "?f k0" "[]" "map ?f F0"]
  obtain A' B where split: "?f k0 # map ?f F0 = A' @ ?r # B"
    and before: "\<forall>x\<in>set A'. snd x < snd ?r" and after: "\<forall>x\<in>set B. snd x \<le> snd ?r"
    by auto
  from split have "map ?f (firsts ps) = A' @ ?r # B" by (simp add: F)
  from map_split [OF this]
  obtain A'' d B'' where parts: "firsts ps = A'' @ d # B''" "A' = map ?f A''" "?r = ?f d" "B = map ?f B''"
    by blast
  have d: "fst ?r = d" and cd: "snd ?r = count_list ps d"
    using parts(3) by simp_all
  have lt: "\<forall>q\<in>set A''. count_list ps q < count_list ps d"
    using before parts(2) cd by auto
  have le: "\<forall>q\<in>set B''. count_list ps q \<le> count_list ps d"
    using after parts(4) cd by auto
  have "d \<in> set (firsts ps)"
    unfolding parts(1) by simp
  then have din: "d \<in> set ps"
    by (simp add: set_firsts)
  have all: "\<forall>q\<in>set ps. count_list ps q \<le> count_list ps d"
  proof
    fix q assume "q \<in> set ps"
    then have "q \<in> set (firsts ps)" by (simp only: set_firsts)
    then have "q \<in> set A'' \<or> q = d \<or> q \<in> set B''" unfolding parts(1) by auto
    then show "count_list ps q \<le> count_list ps d"
      using lt le by (auto intro: less_imp_le)
  qed
  obtain pre post where ps: "ps = pre @ d # post" and pre: "d \<notin> set pre"
    using split_list_first [OF din] by auto
  have tw: "takeWhile (\<lambda>q. q \<noteq> d) ps = pre"
    unfolding ps using pre by (rule takeWhile_split)
  obtain G where G: "firsts ps = firsts pre @ d # G"
    using firsts_prefix [OF pre, of post] ps by auto
  have "distinct (A'' @ d # B'')"
    using distinct_firsts [of ps] by (simp only: parts(1))
  then have "d \<notin> set A''" by simp
  then have "takeWhile (\<lambda>q. q \<noteq> d) (firsts ps) = A''"
    unfolding parts(1) by (rule takeWhile_split)
  moreover have "d \<notin> set (firsts pre)" using pre by (simp add: set_firsts)
  then have "takeWhile (\<lambda>q. q \<noteq> d) (firsts ps) = firsts pre"
    unfolding G by (rule takeWhile_split)
  ultimately have A: "A'' = firsts pre" by simp
  have pre_lt: "\<forall>q\<in>set pre. count_list ps q < count_list ps d"
    using lt unfolding A set_firsts .
  have dom: "(case count_keys ps of [] \<Rightarrow> ''None'' | kv # rest \<Rightarrow> fst (max_from kv rest)) = d"
    unfolding ck using d by simp
  show ?thesis
    unfolding dom first_most_frequent_def tw list_all_iff
    using din all pre_lt by blast
qed

lemma collect_patterns_flat:
  "distinct ts \<Longrightarrow> map fst (collect_patterns ts rs)
     = concat (map (\<lambda>t. case map_of rs t of None \<Rightarrow> [] | Some l \<Rightarrow> map pattern l) ts)"
proof (induction ts)
  case Nil
  then show ?case by simp
next
  case (Cons t ts)
  then have "map fst (collect_patterns ts rs)
     = concat (map (\<lambda>t. case map_of rs t of None \<Rightarrow> [] | Some l \<Rightarrow> map pattern l) ts)"
    by simp
  then show ?case
    by (cases "map_of rs t") (simp_all add: comp_def)
qed

lemma collected_patterns:
  "map fst (collect_patterns task_order (responses data)) = session_patterns data"
proof -
  have "(case map_of (responses data) t of None \<Rightarrow> [] | Some l \<Rightarrow> map pattern l)
      = map pattern (responses_of data t)" for t
    by (simp add: responses_of_def split: option.splits)
  then show ?thesis
    unfolding collect_patterns_flat [OF distinct_task_order]
    by (simp add: task_order_def session_patterns_def flattened_def)
qed

text \<open>
  Claim C5. For a session with at least one response, the dominant pattern is the first
  label, in the order of first encounter in the flattening, whose count is greatest:
  every label has at most its count and every label met before its first occurrence has
  a smaller count. The result depends on the session's map through its lookups only, not
  on its order. The pattern diversity is the number of distinct labels.
\<close>

theorem dominant_pattern_first_most_frequent:
  assumes "flattened data \<noteq> []"
  shows "first_most_frequent (session_patterns data) (dominant_pattern (analyze_pattern_signatures data))
   \<and> pattern_diversity (analyze_pattern_signatures data) = card (set (session_patterns data))
   \<and> (\<forall>data'. map_of (responses data') = map_of (responses data) \<longrightarrow>
         dominant_pattern (analyze_pattern_signatures data')
           = dominant_pattern (analyze_pattern_signatures data))"
proof -
  from assms have ne: "session_patterns data \<noteq> []"
    by (simp add: session_patterns_def)
  have dom: "dominant_pattern (analyze_pattern_signatures d) =
      (case count_keys (session_patterns d) of [] \<Rightarrow> ''None'' | kv # rest \<Rightarrow> fst (max_from kv rest))" for d
    by (simp add: analyze_pattern_signatures_def Let_def collected_patterns)
  have "pattern_diversity (analyze_pattern_signatures data)
      = length (remdups (map fst (collect_patterns task_order (responses data))))"
    by (simp add: analyze_pattern_signatures_def Let_def)
  then have div: "pattern_diversity (analyze_pattern_signatures data) = card (set (session_patterns data))"
    by (simp only: collected_patterns length_remdups_card_conv)
  have same: "dominant_pattern (analyze_pattern_signatures data')
           = dominant_pattern (analyze_pattern_signatures data)"
    if "map_of (responses data') = map_of (responses data)" for data'
  proof -
    from that have "session_patterns data' = session_patterns data"
      by (simp add: session_patterns_def flattened_def responses_of_def)
    then show ?thesis by (simp only: dom)
  qed
  have first: "first_most_frequent (session_patterns data)
      (dominant_pattern (analyze_pattern_signatures data))"
    unfolding dom by (rule dominant_of_counts [OF ne])
  from first div same show ?thesis by blast
qed

theorem dominant_pattern_first_most_frequent_witness:
  "flattened tie_session \<noteq> []
   \<and> session_patterns tie_session = [''AADS'', ''CCDF'', ''CCDF'', ''AADS'']
   \<and> dominant_pattern (analyze_pattern_signatures tie_session) = ''AADS''
   \<and> pattern_diversity (analyze_pattern_signatures tie_session) = 2"
proof -
  have ne: "flattened tie_session \<noteq> []"
    by (simp add: flattened_def responses_of_def tie_session_def)
  have ps: "session_patterns tie_session = [''AADS'', ''CCDF'', ''CCDF'', ''AADS'']"
    by (simp add: session_patterns_def flattened_def responses_of_def tie_session_def)
  note t = dominant_pattern_first_most_frequent [OF ne, unfolded ps]
  from t [THEN conjunct1]
  have "dominant_pattern (analyze_pattern_signatures tie_session) = ''AADS''"
    by (auto simp: first_most_frequent_def)
  moreover have "pattern_diversity (analyze_pattern_signatures tie_session) = 2"
  proof -
    have "set [''AADS'', ''CCDF'', ''CCDF'', ''AADS''] = {''AADS'', ''CCDF''}" by auto
    then have "card (set [''AADS'', ''CCDF'', ''CCDF'', ''AADS'']) = 2" by simp
    with t [THEN conjunct2, THEN conjunct1] show ?thesis by (simp only:)
  qed
  ultimately show ?thesis using ne ps by simp
qed

section \<open>Verification: significance test\<close>

lemma map_entry_tabulate:
  "distinct L \<Longrightarrow> AList.map_entry k h (map (\<lambda>x. (x, g x)) L)
     = map (\<lambda>x. (x, if x = k then h (g x) else g x)) L"
  by (induction L) auto

lemma samples_snoc:
  "samples (ss @ [s]) m
     = samples ss m @ (if model_of s = m then (case stored_coherence s of None \<Rightarrow> [] | Some c \<Rightarrow> [c]) else [])"
  by (simp add: samples_def)

lemma coherence_by_model_snoc:
  "coherence_by_model (ss @ [s]) = add_session s (coherence_by_model ss)"
  by (simp add: coherence_by_model_def)

lemma models_of_snoc:
  "models_of (ss @ [s]) = (if model_of s \<in> set (models_of ss) then models_of ss else models_of ss @ [model_of s])"
  by (simp add: models_of_def firsts_snoc set_firsts)

lemma distinct_models_of: "distinct (models_of ss)"
  by (simp add: models_of_def distinct_firsts)

lemma samples_unknown_model: "m \<notin> set (models_of ss) \<Longrightarrow> samples ss m = []"
  by (auto simp: models_of_def set_firsts samples_def filter_empty_conv)

lemma coherence_by_model_spec:
  "coherence_by_model ss = map (\<lambda>m. (m, samples ss m)) (models_of ss)"
proof (induction ss rule: rev_induct)
  case Nil
  then show ?case by (simp add: coherence_by_model_def models_of_def firsts_def)
next
  case (snoc s ss)
  let ?m = "model_of s"
  let ?T = "map (\<lambda>m. (m, samples ss m)) (models_of ss)"
  let ?c = "case stored_coherence s of None \<Rightarrow> [] | Some c \<Rightarrow> [c]"
  have step1: "(case map_of ?T ?m of None \<Rightarrow> AList.update ?m [] ?T | Some scores \<Rightarrow> ?T)
      = map (\<lambda>m. (m, samples ss m)) (models_of (ss @ [s]))"
  proof (cases "?m \<in> set (models_of ss)")
    case True
    then show ?thesis by (simp add: map_of_tabulate models_of_snoc)
  next
    case False
    then show ?thesis
      by (simp add: map_of_tabulate models_of_snoc update_tabulate distinct_models_of
            samples_unknown_model)
  qed
  have step2: "add_session s ?T = map (\<lambda>m. (m, samples ss m @ (if m = ?m then ?c else [])))
                                     (models_of (ss @ [s]))"
    unfolding add_session_def Let_def step1
    by (cases "stored_coherence s") (simp_all add: map_entry_tabulate distinct_models_of)
  have "add_session s ?T = map (\<lambda>m. (m, samples (ss @ [s]) m)) (models_of (ss @ [s]))"
    unfolding step2 by (rule map_cong [OF refl]) (auto simp: samples_snoc)
  then show ?case
    by (simp only: coherence_by_model_snoc snoc.IH)
qed

lemma lookup_samples:
  "m \<in> set (models_of ss) \<Longrightarrow>
     map_of (map (\<lambda>m. (m, samples ss m)) (models_of ss)) m = Some (samples ss m)"
  by (simp add: map_of_tabulate)

text \<open>
  Claim C8, amended. The one-way ANOVA is computed, with F statistic, p-value and
  \<^verbatim>\<open>significant = (p < 0.05)\<close> over the per-model lists of coherence scores, when the
  batch has at least two distinct models and every model of the batch has at least two
  coherence samples; otherwise it is absent.
\<close>

theorem anova_computed_iff_all_models_sampled:
  "anova f_oneway all_sessions =
     (if 2 \<le> length (models_of all_sessions)
         \<and> (\<forall>m\<in>set (models_of all_sessions). 2 \<le> length (samples all_sessions m))
      then Some \<lparr> f_statistic = fst (f_oneway (map (samples all_sessions) (models_of all_sessions))),
                  p_value = snd (f_oneway (map (samples all_sessions) (models_of all_sessions))),
                  significant = (snd (f_oneway (map (samples all_sessions) (models_of all_sessions))) < 0.05) \<rparr>
      else None)"
proof -
  let ?M = "models_of all_sessions"
  let ?T = "map (\<lambda>m. (m, samples all_sessions m)) ?M"
  have keys: "map fst ?T = ?M" by (simp add: comp_def)
  have look: "map (\<lambda>m. case map_of ?T m of None \<Rightarrow> [] | Some g \<Rightarrow> [g]) ?M
      = map (\<lambda>m. [samples all_sessions m]) ?M"
    by (rule map_cong [OF refl]) (simp add: lookup_samples)
  have groups: "concat (map (\<lambda>m. case map_of ?T m of None \<Rightarrow> [] | Some g \<Rightarrow> [g]) ?M)
      = map (samples all_sessions) ?M"
    unfolding look by (induction ?M) simp_all
  have pre: "list_all (\<lambda>m. length (case map_of ?T m of None \<Rightarrow> [] | Some g \<Rightarrow> g) \<ge> 2) ?M
      \<longleftrightarrow> (\<forall>m\<in>set ?M. 2 \<le> length (samples all_sessions m))"
    by (auto simp: list_all_iff lookup_samples)
  have nonempty: "list_all (\<lambda>g. length g > 0) (map (samples all_sessions) ?M)"
    if "\<forall>m\<in>set ?M. 2 \<le> length (samples all_sessions m)"
    using that by (auto simp: list_all_iff)
  show ?thesis
    unfolding anova_def Let_def coherence_by_model_spec keys groups pre
    using nonempty by (auto simp: split_beta)
qed

lemma models_of_two: "models_of two_model_batch = [''A'', ''B'']"
  by (simp add: models_of_def firsts_def two_model_batch_def model_of_def)

lemma models_of_three: "models_of three_model_batch = [''A'', ''B'', ''C'']"
  by (simp add: models_of_def firsts_def three_model_batch_def two_model_batch_def model_of_def)

theorem anova_computed_iff_all_models_sampled_witness:
  "anova example_f_oneway two_model_batch
     = Some \<lparr> f_statistic = 72, p_value = 0.0136, significant = True \<rparr>"
proof -
  have s: "samples two_model_batch ''A'' = [0.8, 0.9]" "samples two_model_batch ''B'' = [0.2, 0.3]"
    by (simp_all add: samples_def two_model_batch_def model_of_def)
  show ?thesis
    using anova_computed_iff_all_models_sampled [of example_f_oneway two_model_batch]
    by (simp add: models_of_two s example_f_oneway_def)
qed

theorem anova_skipped_with_undersampled_model_counterexample:
  "2 \<le> length (well_sampled three_model_batch)
   \<and> anova example_f_oneway three_model_batch = None"
proof -
  have s: "samples three_model_batch ''A'' = [0.8, 0.9]" "samples three_model_batch ''B'' = [0.2, 0.3]"
    "samples three_model_batch ''C'' = [0.5]"
    by (simp_all add: samples_def three_model_batch_def two_model_batch_def model_of_def)
  have c: "coherence_by_model three_model_batch
      = [(''A'', [0.8, 0.9]), (''B'', [0.2, 0.3]), (''C'', [0.5])]"
    by (simp add: coherence_by_model_def three_model_batch_def two_model_batch_def
          add_session_def model_of_def)
  show ?thesis
    by (simp add: well_sampled_def models_of_three s anova_def c)
qed

section \<open>Verification: effect of the analysis on the session\<close>

text \<open>
  Claim C9, amended. The session analysis changes the session it is given in one way
  only: each response listed under \<^verbatim>\<open>concrete\<close>, \<^verbatim>\<open>internal\<close> or \<^verbatim>\<open>external\<close> gets
  that task type as its \<^verbatim>\<open>task_type\<close>. The keys of the response map and their order, the
  responses under any other key, every other field of a response and the other fields
  of the session stay as they were.
\<close>

theorem analysis_only_tags_responses:
  "session_timestamp (fst (analyze_session rsa pearsonr data)) = session_timestamp data
   \<and> model (fst (analyze_session rsa pearsonr data)) = model data
   \<and> map fst (responses (fst (analyze_session rsa pearsonr data))) = map fst (responses data)
   \<and> (\<forall>t. map_of (responses (fst (analyze_session rsa pearsonr data))) t =
          (if t \<in> set task_order
           then map_option (map (\<lambda>resp. resp\<lparr>task_type := Some t\<rparr>)) (map_of (responses data) t)
           else map_of (responses data) t))"
proof -
  have s: "fst (analyze_session rsa pearsonr data)
      = data\<lparr>responses := fst (collect_responses task_order (responses data) [])\<rparr>"
    by (simp add: analyze_session_def calculate_dimensional_shifts_def split_beta)
  show ?thesis
    unfolding s by (simp add: collect_keys collect_fst [OF distinct_task_order])
qed

theorem analysis_only_tags_responses_witness:
  "map_of (responses (fst (analyze_session create_feature_rdm exact_pearsonr test_session))) ''concrete''
     = Some [\<lparr> prompt = ''test'', response_text = ''test response'',
                features = [(''visual'', 0.5), (''tactile'', 0.5), (''social'', 0.5), (''emotion'', 0.5)],
                pattern = ''CCDF'', timestamp = [], task_type = Some ''concrete'' \<rparr>]"
  using analysis_only_tags_responses [of create_feature_rdm exact_pearsonr test_session]
  by (simp add: task_order_def test_session_def)

theorem analysis_writes_task_type_counterexample:
  "map task_type (flattened test_session) = [None, None]
   \<and> map task_type (flattened (fst (analyze_session create_feature_rdm exact_pearsonr test_session)))
       = [Some ''concrete'', Some ''internal'']
   \<and> fst (analyze_session create_feature_rdm exact_pearsonr test_session) \<noteq> test_session"
proof -
  have before: "map task_type (flattened test_session) = [None, None]"
    by (simp add: flattened_def responses_of_def test_session_def)
  have after: "map task_type (flattened (fst (analyze_session create_feature_rdm exact_pearsonr test_session)))
       = [Some ''concrete'', Some ''internal'']"
    by (simp add: analyze_session_def calculate_dimensional_shifts_def split_beta task_order_def
          flattened_def responses_of_def test_session_def Let_def)
  from before after
  have "fst (analyze_session create_feature_rdm exact_pearsonr test_session) \<noteq> test_session"
    by auto
  with before after show ?thesis by simp
qed


end
